theory Spec2Isabelle
  imports Main
begin

section \<open>Python strings\<close>

text \<open>
  The parser of \<^verbatim>\<open>src/core/parsers/roo_tool_parser.py\<close> works on Python \<^verbatim>\<open>str\<close>
  values. They are modelled as \<^typ>\<open>string\<close>, so a character is one of the 256 code points
  below U+0100; the string methods the parser calls are written out below, each named after
  the Python method it stands for.
\<close>

definition is_space :: "char \<Rightarrow> bool" where
  \<comment> \<open>\<^verbatim>\<open>str.isspace\<close> on one character; also the class \<^verbatim>\<open>\s\<close> of the standard \<^verbatim>\<open>re\<close> module.\<close>
  "is_space c \<longleftrightarrow> c \<in> set [CHR 0x09, CHR 0x0A, CHR 0x0B, CHR 0x0C, CHR 0x0D,
     CHR 0x1C, CHR 0x1D, CHR 0x1E, CHR 0x1F, CHR 0x20, CHR 0x85, CHR 0xA0]"

definition lstrip :: "string \<Rightarrow> string" where
  "lstrip s = dropWhile is_space s"

definition rstrip :: "string \<Rightarrow> string" where
  "rstrip s = rev (dropWhile is_space (rev s))"

definition strip :: "string \<Rightarrow> string" where
  "strip s = lstrip (rstrip s)"

fun startswith :: "string \<Rightarrow> string \<Rightarrow> bool" where
  \<comment> \<open>\<^verbatim>\<open>s.startswith(p)\<close>\<close>
  "startswith s [] = True"
| "startswith [] (p # ps) = False"
| "startswith (c # cs) (p # ps) = (c = p \<and> startswith cs ps)"

definition endswith :: "string \<Rightarrow> string \<Rightarrow> bool" where
  \<comment> \<open>\<^verbatim>\<open>s.endswith(p)\<close>\<close>
  "endswith s p = startswith (rev s) (rev p)"

fun contains :: "string \<Rightarrow> string \<Rightarrow> bool" where
  \<comment> \<open>\<^verbatim>\<open>p in s\<close>\<close>
  "contains p [] = (p = [])"
| "contains p (c # cs) = (startswith (c # cs) p \<or> contains p cs)"

fun find_str :: "string \<Rightarrow> string \<Rightarrow> int" where
  \<comment> \<open>\<^verbatim>\<open>s.find(p)\<close>: the first index of \<open>p\<close> in \<open>s\<close>, or \<open>-1\<close>\<close>
  "find_str p [] = (if p = [] then 0 else - 1)"
| "find_str p (c # cs) =
     (if startswith (c # cs) p then 0
      else (let r = find_str p cs in if r < 0 then - 1 else r + 1))"

fun rfind_str :: "string \<Rightarrow> string \<Rightarrow> int" where
  \<comment> \<open>\<^verbatim>\<open>s.rfind(p)\<close>: the last index of \<open>p\<close> in \<open>s\<close>, or \<open>-1\<close>\<close>
  "rfind_str p [] = (if p = [] then 0 else - 1)"
| "rfind_str p (c # cs) =
     (let r = rfind_str p cs in
      if 0 \<le> r then r + 1 else if startswith (c # cs) p then 0 else - 1)"

fun remove_all :: "string \<Rightarrow> nat \<Rightarrow> string \<Rightarrow> string" where
  \<comment> \<open>\<^verbatim>\<open>s.replace(p, "")\<close> for a non-empty \<open>p\<close> is \<open>remove_all p 0 s\<close>: one pass from the left
      over non-overlapping occurrences; the counter is the number of characters of the
      occurrence at hand that are still to be dropped.\<close>
  "remove_all p k [] = []"
| "remove_all p (Suc k) (c # cs) = remove_all p k cs"
| "remove_all p 0 (c # cs) =
     (if p \<noteq> [] \<and> startswith (c # cs) p then remove_all p (length p - 1) cs
      else c # remove_all p 0 cs)"

definition replace_empty :: "string \<Rightarrow> string \<Rightarrow> string" where
  \<comment> \<open>\<^verbatim>\<open>s.replace(p, "")\<close>\<close>
  "replace_empty s p = remove_all p 0 s"

definition slice_from :: "string \<Rightarrow> int \<Rightarrow> string" where
  \<comment> \<open>\<^verbatim>\<open>s[a:]\<close> for \<open>a \<ge> 0\<close>\<close>
  "slice_from s a = drop (nat a) s"

definition slice_to :: "string \<Rightarrow> int \<Rightarrow> string" where
  \<comment> \<open>\<^verbatim>\<open>s[:b]\<close> for \<open>b \<ge> 0\<close>\<close>
  "slice_to s b = take (nat b) s"

definition slice :: "string \<Rightarrow> int \<Rightarrow> int \<Rightarrow> string" where
  \<comment> \<open>\<^verbatim>\<open>s[a:b]\<close> for \<open>a, b \<ge> 0\<close>; empty when \<open>b \<le> a\<close>\<close>
  "slice s a b = drop (nat a) (take (nat b) s)"

section \<open>Constants\<close>

definition ROO_TOOLS :: "string list" where
  "ROO_TOOLS = [''execute_command'', ''read_file'', ''write_to_file'', ''apply_diff'',
     ''search_files'', ''list_files'', ''list_code_definition_names'', ''browser_action'',
     ''use_mcp_tool'', ''access_mcp_resource'', ''ask_followup_question'',
     ''attempt_completion'', ''switch_mode'', ''new_task'', ''fetch_instructions'']"

definition tool_call_start_token :: string where
  "tool_call_start_token = ''<tool_call>''"

definition tool_call_end_token :: string where
  "tool_call_end_token = ''</tool_call>''"

section \<open>The content sanitizer\<close>

definition tag_patterns :: "string \<Rightarrow> string list" where
  \<comment> \<open>complete opening tag, complete closing tag, partial opening tag, partial closing tag\<close>
  "tag_patterns name =
     [''<'' @ name @ ''>'', ''</'' @ name @ ''>'', ''<'' @ name, ''</'' @ name]"

definition hermes_patterns :: "string list" where
  "hermes_patterns = [''<tool_call>'', ''</tool_call>'', ''<tool_call'', ''</tool_call'',
     ''<tools>'', ''</tools>'', ''<tools'', ''</tools'']"

definition remove_pattern :: "string \<Rightarrow> string \<Rightarrow> string" where
  \<comment> \<open>the body of each of the three \<^verbatim>\<open>for pattern in ...\<close> loops\<close>
  "remove_pattern cleaned pattern =
     (if contains pattern cleaned then replace_empty cleaned pattern else cleaned)"


definition clean_content_from_xml_tags :: "string option \<Rightarrow> string \<Rightarrow> string option" where
  \<comment> \<open>\<^verbatim>\<open>content\<close> is \<^verbatim>\<open>None\<close> or a string; \<^verbatim>\<open>not content\<close> holds for \<^verbatim>\<open>None\<close> and for \<^verbatim>\<open>""\<close>.\<close>
  "clean_content_from_xml_tags content tool_name =
     (case content of
        None \<Rightarrow> None
      | Some c \<Rightarrow>
          if c = [] then None
          else
            (let cleaned = foldl remove_pattern c (tag_patterns tool_name);
                 cleaned = foldl remove_pattern cleaned (concat (map tag_patterns ROO_TOOLS));
                 cleaned = foldl remove_pattern cleaned hermes_patterns;
                 cleaned = strip cleaned
             in if cleaned = [] then None else Some cleaned))"

section \<open>Format detection\<close>

definition has_hermes_format :: "string \<Rightarrow> bool" where
  "has_hermes_format text = contains tool_call_start_token text"

definition has_tools_tag_format :: "string \<Rightarrow> bool" where
  "has_tools_tag_format text \<longleftrightarrow>
     contains ''<tools>'' text \<and> contains ''name'' text \<and> contains ''arguments'' text"

definition has_roo_xml_format :: "string \<Rightarrow> bool" where
  "has_roo_xml_format text \<longleftrightarrow>
     (\<exists>tool_name \<in> set ROO_TOOLS. contains (''<'' @ tool_name @ ''>'') text)"

fun think_close_json :: "string \<Rightarrow> string \<Rightarrow> (string \<times> string) option" where
  \<comment> \<open>The tail \<^verbatim>\<open>.*?</think>\s*(\{.*)\<close> of the three think patterns (flag DOTALL), run on the
      text after \<^verbatim>\<open><think>\<close>: the lazy \<^verbatim>\<open>.*?\<close> stops at the first \<^verbatim>\<open></think>\<close> that is
      followed by optional white space and an opening brace. The result is what \<^verbatim>\<open>.*?\<close>
      consumed (kept in reverse in the accumulator) and the group \<^verbatim>\<open>(\{.*)\<close>.\<close>
  "think_close_json acc [] = None"
| "think_close_json acc (c # cs) =
     (if startswith (c # cs) ''</think>''
         \<and> startswith (dropWhile is_space (drop 8 (c # cs))) ''{''
      then Some (rev acc, dropWhile is_space (drop 8 (c # cs)))
      else think_close_json (c # acc) cs)"

definition think_json_match :: "string \<Rightarrow> (string \<times> string) option" where
  \<comment> \<open>\<^verbatim>\<open>re.compile(r'^(<think>.*?</think>)\s*(\{.*)', re.DOTALL).match(text)\<close>: groups 1 and 2\<close>
  "think_json_match text =
     (if startswith text ''<think>'' then
        (case think_close_json [] (drop 7 text) of
           None \<Rightarrow> None
         | Some (inner, json_part) \<Rightarrow> Some (''<think>'' @ inner @ ''</think>'', json_part))
      else None)"

definition has_direct_json_format :: "string \<Rightarrow> bool" where
  "has_direct_json_format text0 =
     (let text = strip text0 in
      if startswith text ''{'' \<and> contains ''\"name\"'' text \<and> contains ''\"arguments\"'' text
      then True
      else if think_json_match text \<noteq> None
              \<and> contains ''\"name\"'' text \<and> contains ''\"arguments\"'' text
      then True
      else False)"

section \<open>JSON values, \<^verbatim>\<open>json.loads\<close> and \<^verbatim>\<open>json.dumps\<close>\<close>

text \<open>
  The parser calls the standard \<^verbatim>\<open>json\<close> module. Its values and the two functions used are
  modelled here. A Python \<^verbatim>\<open>dict\<close> is an association list in insertion order, written only
  through \<open>dict_set\<close>. A number with a fraction or an exponent is kept as its literal: the
  value of a float and its \<^verbatim>\<open>repr\<close> are outside the model, as are the interpreter's limits
  on the depth of nesting and on the length of an integer literal. An escape \<^verbatim>\<open>\uXXXX\<close> above
  \<^verbatim>\<open>\u00FF\<close> has no character in the model and is refused.
\<close>

datatype json =
    JNull
  | JBool bool
  | JInt int
  | JFloat string
  | JStr string
  | JArr "json list"
  | JObj "(string \<times> json) list"

fun dict_set :: "(string \<times> 'v) list \<Rightarrow> string \<Rightarrow> 'v \<Rightarrow> (string \<times> 'v) list" where
  \<comment> \<open>\<^verbatim>\<open>d[k] = v\<close>\<close>
  "dict_set [] k v = [(k, v)]"
| "dict_set ((k', v') # d) k v =
     (if k' = k then (k, v) # d else (k', v') # dict_set d k v)"

definition dict_get :: "(string \<times> 'v) list \<Rightarrow> string \<Rightarrow> 'v option" where
  \<comment> \<open>\<^verbatim>\<open>d[k]\<close>, with \<open>None\<close> for the \<^verbatim>\<open>KeyError\<close>\<close>
  "dict_get d k = map_of d k"

subsection \<open>Tokens\<close>

datatype tok = TLBrace | TRBrace | TLBrack | TRBrack | TColon | TComma | TStr string | TWord string

datatype lex_state = LIdle | LWord string | LStr string | LEsc string | LUni string string

definition is_digit :: "char \<Rightarrow> bool" where
  "is_digit c \<longleftrightarrow> c \<in> set ''0123456789''"

definition is_ascii_letter :: "char \<Rightarrow> bool" where
  "is_ascii_letter c \<longleftrightarrow>
     c \<in> set ''abcdefghijklmnopqrstuvwxyzABCDEFGHIJKLMNOPQRSTUVWXYZ''"

definition is_literal_char :: "char \<Rightarrow> bool" where
  \<comment> \<open>the characters of numbers and of the constants \<^verbatim>\<open>true false null NaN Infinity\<close>\<close>
  "is_literal_char c \<longleftrightarrow> is_digit c \<or> is_ascii_letter c \<or> c \<in> set ''+-.''"

definition is_json_space :: "char \<Rightarrow> bool" where
  "is_json_space c \<longleftrightarrow> c \<in> set [CHR 0x20, CHR 0x09, CHR 0x0A, CHR 0x0D]"

definition hex_val :: "char \<Rightarrow> nat option" where
  "hex_val c =
     (if is_digit c then Some (of_char c - 48)
      else if c \<in> set ''abcdef'' then Some (of_char c - 87)
      else if c \<in> set ''ABCDEF'' then Some (of_char c - 55)
      else None)"

definition idle_step :: "tok list \<Rightarrow> char \<Rightarrow> (lex_state \<times> tok list) option" where
  "idle_step toks c =
     (if is_json_space c then Some (LIdle, toks)
      else if c = CHR ''{'' then Some (LIdle, TLBrace # toks)
      else if c = CHR ''}'' then Some (LIdle, TRBrace # toks)
      else if c = CHR ''['' then Some (LIdle, TLBrack # toks)
      else if c = CHR '']'' then Some (LIdle, TRBrack # toks)
      else if c = CHR '':'' then Some (LIdle, TColon # toks)
      else if c = CHR '','' then Some (LIdle, TComma # toks)
      else if c = CHR 0x22 then Some (LStr [], toks)
      else if is_literal_char c then Some (LWord [c], toks)
      else None)"

fun lex_step :: "lex_state \<Rightarrow> tok list \<Rightarrow> char \<Rightarrow> (lex_state \<times> tok list) option" where
  \<comment> \<open>one character; the accumulators hold their characters in reverse\<close>
  "lex_step LIdle toks c = idle_step toks c"
| "lex_step (LWord w) toks c =
     (if is_literal_char c then Some (LWord (c # w), toks)
      else idle_step (TWord (rev w) # toks) c)"
| "lex_step (LStr acc) toks c =
     (if c = CHR 0x22 then Some (LIdle, TStr (rev acc) # toks)
      else if c = CHR 0x5C then Some (LEsc acc, toks)
      else if (of_char c :: nat) < 32 then None
      else Some (LStr (c # acc), toks))"
| "lex_step (LEsc acc) toks c =
     (if c = CHR 0x22 \<or> c = CHR 0x5C \<or> c = CHR ''/'' then Some (LStr (c # acc), toks)
      else if c = CHR ''b'' then Some (LStr (CHR 0x08 # acc), toks)
      else if c = CHR ''f'' then Some (LStr (CHR 0x0C # acc), toks)
      else if c = CHR ''n'' then Some (LStr (CHR 0x0A # acc), toks)
      else if c = CHR ''r'' then Some (LStr (CHR 0x0D # acc), toks)
      else if c = CHR ''t'' then Some (LStr (CHR 0x09 # acc), toks)
      else if c = CHR ''u'' then Some (LUni acc [], toks)
      else None)"
| "lex_step (LUni acc hex) toks c =
     (case hex_val c of
        None \<Rightarrow> None
      | Some _ \<Rightarrow>
          if length hex < 3 then Some (LUni acc (c # hex), toks)
          else
            (let code = foldl (\<lambda>a d. 16 * a + (case hex_val d of None \<Rightarrow> 0 | Some n \<Rightarrow> n))
                          (0 :: nat) (rev (c # hex))
             in if code < 256 then Some (LStr (char_of code # acc), toks) else None))"

fun lex_run :: "lex_state \<Rightarrow> tok list \<Rightarrow> string \<Rightarrow> tok list option" where
  "lex_run st toks [] =
     (case st of
        LIdle \<Rightarrow> Some (rev toks)
      | LWord w \<Rightarrow> Some (rev (TWord (rev w) # toks))
      | _ \<Rightarrow> None)"
| "lex_run st toks (c # cs) =
     (case lex_step st toks c of
        None \<Rightarrow> None
      | Some (st', toks') \<Rightarrow> lex_run st' toks' cs)"

subsection \<open>Numbers and constants\<close>

definition int_of_digits :: "string \<Rightarrow> int" where
  "int_of_digits ds = foldl (\<lambda>a d. 10 * a + (int (of_char d) - 48)) 0 ds"

definition number_literal :: "string \<Rightarrow> json option" where
  \<comment> \<open>a full match of \<^verbatim>\<open>(-?(?:0|[1-9][0-9]*))(\.[0-9]+)?([eE][-+]?[0-9]+)?\<close>\<close>
  "number_literal w =
     (let neg = startswith w ''-'';
          u = (if neg then tl w else w);
          ip = takeWhile is_digit u;
          r1 = dropWhile is_digit u;
          has_frac = startswith r1 ''.'';
          fd = (if has_frac then takeWhile is_digit (tl r1) else []);
          r2 = (if has_frac then dropWhile is_digit (tl r1) else r1);
          has_exp = (startswith r2 ''e'' \<or> startswith r2 ''E'');
          r3 = (if has_exp then tl r2 else r2);
          r4 = (if has_exp \<and> (startswith r3 ''+'' \<or> startswith r3 ''-'') then tl r3 else r3)
      in if ip = [] \<or> (length ip > 1 \<and> hd ip = CHR ''0'') then None
         else if has_frac \<and> fd = [] then None
         else if has_exp \<and> (r4 = [] \<or> \<not> list_all is_digit r4) then None
         else if \<not> has_exp \<and> r4 \<noteq> [] then None
         else if has_frac \<or> has_exp then Some (JFloat w)
         else Some (JInt (if neg then - int_of_digits ip else int_of_digits ip)))"

definition classify_word :: "string \<Rightarrow> json option" where
  "classify_word w =
     (if w = ''null'' then Some JNull
      else if w = ''true'' then Some (JBool True)
      else if w = ''false'' then Some (JBool False)
      else if w = ''NaN'' \<or> w = ''Infinity'' \<or> w = ''-Infinity'' then Some (JFloat w)
      else number_literal w)"

subsection \<open>The grammar, on tokens\<close>

datatype frame = FArr "json list" | FObj "(string \<times> json) list" | FKey string

datatype pstate = PValue | PArrFirst | PObjFirst | PKey | PColon string | PAfter json

definition value_step :: "frame list \<Rightarrow> tok \<Rightarrow> (pstate \<times> frame list) option" where
  \<comment> \<open>a value is expected\<close>
  "value_step stack t =
     (case t of
        TWord w \<Rightarrow> (case classify_word w of None \<Rightarrow> None | Some v \<Rightarrow> Some (PAfter v, stack))
      | TStr s \<Rightarrow> Some (PAfter (JStr s), stack)
      | TLBrack \<Rightarrow> Some (PArrFirst, FArr [] # stack)
      | TLBrace \<Rightarrow> Some (PObjFirst, FObj [] # stack)
      | _ \<Rightarrow> None)"

definition after_step :: "json \<Rightarrow> frame list \<Rightarrow> tok \<Rightarrow> (pstate \<times> frame list) option" where
  \<comment> \<open>the value \<open>v\<close> is complete\<close>
  "after_step v stack t =
     (case stack of
        FArr items # st \<Rightarrow>
          (case t of
             TComma \<Rightarrow> Some (PValue, FArr (items @ [v]) # st)
           | TRBrack \<Rightarrow> Some (PAfter (JArr (items @ [v])), st)
           | _ \<Rightarrow> None)
      | FKey k # FObj pairs # st \<Rightarrow>
          (case t of
             TComma \<Rightarrow> Some (PKey, FObj (dict_set pairs k v) # st)
           | TRBrace \<Rightarrow> Some (PAfter (JObj (dict_set pairs k v)), st)
           | _ \<Rightarrow> None)
      | _ \<Rightarrow> None)"

definition parse_step :: "pstate \<Rightarrow> frame list \<Rightarrow> tok \<Rightarrow> (pstate \<times> frame list) option" where
  "parse_step st stack t =
     (case st of
        PValue \<Rightarrow> value_step stack t
      | PArrFirst \<Rightarrow>
          (case t of
             TRBrack \<Rightarrow> Some (PAfter (JArr []), tl stack)
           | _ \<Rightarrow> value_step stack t)
      | PObjFirst \<Rightarrow>
          (case t of
             TRBrace \<Rightarrow> Some (PAfter (JObj []), tl stack)
           | TStr k \<Rightarrow> Some (PColon k, stack)
           | _ \<Rightarrow> None)
      | PKey \<Rightarrow> (case t of TStr k \<Rightarrow> Some (PColon k, stack) | _ \<Rightarrow> None)
      | PColon k \<Rightarrow> (case t of TColon \<Rightarrow> Some (PValue, FKey k # stack) | _ \<Rightarrow> None)
      | PAfter v \<Rightarrow> after_step v stack t)"

fun parse_run :: "pstate \<Rightarrow> frame list \<Rightarrow> tok list \<Rightarrow> json option" where
  "parse_run st stack [] = (case (st, stack) of (PAfter v, []) \<Rightarrow> Some v | _ \<Rightarrow> None)"
| "parse_run st stack (t # ts) =
     (case parse_step st stack t of
        None \<Rightarrow> None
      | Some (st', stack') \<Rightarrow> parse_run st' stack' ts)"

definition json_loads :: "string \<Rightarrow> json option" where
  \<comment> \<open>\<^verbatim>\<open>json.loads(s)\<close>; \<open>None\<close> is the \<^verbatim>\<open>JSONDecodeError\<close>\<close>
  "json_loads s =
     (case lex_run LIdle [] s of
        None \<Rightarrow> None
      | Some toks \<Rightarrow> parse_run PValue [] toks)"

subsection \<open>Serialization\<close>

fun show_nat :: "nat \<Rightarrow> string" where
  "show_nat n =
     (if n < 10 then [''0123456789'' ! n]
      else show_nat (n div 10) @ [''0123456789'' ! (n mod 10)])"

definition show_int :: "int \<Rightarrow> string" where
  "show_int i = (if i < 0 then ''-'' @ show_nat (nat (- i)) else show_nat (nat i))"

definition escape_char :: "char \<Rightarrow> string" where
  "escape_char c =
     (if c = CHR 0x22 then [CHR 0x5C, CHR 0x22]
      else if c = CHR 0x5C then [CHR 0x5C, CHR 0x5C]
      else if c = CHR 0x08 then [CHR 0x5C, CHR ''b'']
      else if c = CHR 0x0C then [CHR 0x5C, CHR ''f'']
      else if c = CHR 0x0A then [CHR 0x5C, CHR ''n'']
      else if c = CHR 0x0D then [CHR 0x5C, CHR ''r'']
      else if c = CHR 0x09 then [CHR 0x5C, CHR ''t'']
      else if (of_char c :: nat) < 32
        then [CHR 0x5C, CHR ''u'', CHR ''0'', CHR ''0'',
              ''0123456789abcdef'' ! (of_char c div 16), ''0123456789abcdef'' ! (of_char c mod 16)]
      else [c])"

definition quote_str :: "string \<Rightarrow> string" where
  "quote_str s = [CHR 0x22] @ concat (map escape_char s) @ [CHR 0x22]"

fun join :: "string \<Rightarrow> string list \<Rightarrow> string" where
  \<comment> \<open>\<^verbatim>\<open>sep.join(xs)\<close>\<close>
  "join sep [] = []"
| "join sep [x] = x"
| "join sep (x # y # ys) = x @ sep @ join sep (y # ys)"

fun json_dumps :: "json \<Rightarrow> string" where
  \<comment> \<open>\<^verbatim>\<open>json.dumps(v, ensure_ascii=False)\<close>: the default separators are \<^verbatim>\<open>", "\<close> and \<^verbatim>\<open>": "\<close>\<close>
  "json_dumps JNull = ''null''"
| "json_dumps (JBool b) = (if b then ''true'' else ''false'')"
| "json_dumps (JInt i) = show_int i"
| "json_dumps (JFloat l) = l"
| "json_dumps (JStr s) = quote_str s"
| "json_dumps (JArr xs) = ''['' @ join '', '' (map json_dumps xs) @ '']''"
| "json_dumps (JObj ps) =
     ''{'' @ join '', '' (map (\<lambda>p. quote_str (fst p) @ '': '' @ json_dumps (snd p)) ps) @ ''}''"

section \<open>Results and exceptions\<close>

text \<open>
  \<^verbatim>\<open>ToolCall(type="function", function=FunctionCall(name, arguments))\<close> is a record of the
  name and the argument string; its random \<^verbatim>\<open>id\<close> is left out. A Python exception is a
  value of \<open>py_error\<close>, and a \<^verbatim>\<open>try\<close> block is a function into \<open>py_error + 'a\<close>.
\<close>

record tool_call =
  tc_name :: string
  tc_arguments :: string

record extraction =
  tools_called :: bool
  tool_calls :: "tool_call list"
  content :: "string option"

datatype py_error =
  JSONDecodeError | KeyError | TypeError | AttributeError | ValidationError | IndexError

definition fallback :: "string \<Rightarrow> extraction" where
  \<comment> \<open>what every \<^verbatim>\<open>except Exception\<close> handler of the batch extractors returns\<close>
  "fallback model_output = \<lparr>tools_called = False, tool_calls = [], content = Some model_output\<rparr>"

fun subscript :: "json \<Rightarrow> string \<Rightarrow> py_error + json" where
  \<comment> \<open>\<^verbatim>\<open>v[key]\<close> for a string key\<close>
  "subscript (JObj d) key = (case dict_get d key of None \<Rightarrow> Inl KeyError | Some v \<Rightarrow> Inr v)"
| "subscript v key = Inl TypeError"

fun py_in :: "string \<Rightarrow> json \<Rightarrow> py_error + bool" where
  \<comment> \<open>\<^verbatim>\<open>key in v\<close> for a string key\<close>
  "py_in key (JObj d) = Inr (dict_get d key \<noteq> None)"
| "py_in key (JArr xs) = Inr (JStr key \<in> set xs)"
| "py_in key (JStr s) = Inr (contains key s)"
| "py_in key v = Inl TypeError"

definition function_call_of :: "json \<Rightarrow> py_error + tool_call" where
  \<comment> \<open>\<^verbatim>\<open>ToolCall(type="function", function=FunctionCall(name=fc["name"],
      arguments=json.dumps(fc["arguments"], ensure_ascii=False)))\<close>; the field \<^verbatim>\<open>name\<close> of
      \<^verbatim>\<open>FunctionCall\<close> is declared \<^verbatim>\<open>str\<close>, and any other value fails its validation\<close>
  "function_call_of fc =
     (case subscript fc ''name'' of
        Inl e \<Rightarrow> Inl e
      | Inr name \<Rightarrow>
          (case subscript fc ''arguments'' of
             Inl e \<Rightarrow> Inl e
           | Inr arguments \<Rightarrow>
               (case name of
                  JStr n \<Rightarrow> Inr \<lparr>tc_name = n, tc_arguments = json_dumps arguments\<rparr>
                | _ \<Rightarrow> Inl ValidationError)))"

section \<open>Batch extractors\<close>

fun findall_envelope :: "string \<Rightarrow> string \<Rightarrow> nat \<Rightarrow> string \<Rightarrow> (string \<times> string) list" where
  \<comment> \<open>\<^verbatim>\<open>re.compile(r"<T>(.*?)</T>|<T>(.*)", re.DOTALL).findall(text)\<close> with \<open>op\<close> the opening
      and \<open>cl\<close> the closing tag is \<open>findall_envelope op cl 0 text\<close>; the counter is the
      number of characters of the match at hand that the scan still has to pass.\<close>
  "findall_envelope op cl k [] = []"
| "findall_envelope op cl (Suc k) (c # cs) = findall_envelope op cl k cs"
| "findall_envelope op cl 0 (c # cs) =
     (if startswith (c # cs) op then
        (let rest = drop (length op) (c # cs); j = find_str cl rest in
         if j < 0 then [([], rest)]
         else (slice_to rest j, []) #
                findall_envelope op cl (length op + nat j + length cl - 1) cs)
      else findall_envelope op cl 0 cs)"

definition payload :: "string \<times> string \<Rightarrow> string" where
  \<comment> \<open>\<^verbatim>\<open>match[0] if match[0] else match[1]\<close>\<close>
  "payload m = (if fst m \<noteq> [] then fst m else snd m)"

fun build_tool_calls :: "json list \<Rightarrow> py_error + tool_call list" where
  \<comment> \<open>the loop \<^verbatim>\<open>for fc in raw_function_calls\<close>\<close>
  "build_tool_calls [] = Inr []"
| "build_tool_calls (fc # fcs) =
     (case function_call_of fc of
        Inl e \<Rightarrow> Inl e
      | Inr tc \<Rightarrow>
          (case build_tool_calls fcs of Inl e \<Rightarrow> Inl e | Inr tcs \<Rightarrow> Inr (tc # tcs)))"

definition extract_hermes_try :: "string \<Rightarrow> py_error + extraction" where
  \<comment> \<open>the \<^verbatim>\<open>try\<close> block of \<^verbatim>\<open>_extract_hermes_tool_calls\<close>; a match whose JSON does not parse
      is skipped by the inner handler\<close>
  "extract_hermes_try model_output =
     (let function_call_tuples =
            findall_envelope tool_call_start_token tool_call_end_token 0 model_output;
          raw_function_calls = List.map_filter (\<lambda>m. json_loads (payload m)) function_call_tuples
      in case build_tool_calls raw_function_calls of
           Inl e \<Rightarrow> Inl e
         | Inr tcs \<Rightarrow>
             (let content_end_idx = find_str tool_call_start_token model_output;
                  raw_content = (if content_end_idx > 0 then slice_to model_output content_end_idx
                                 else []);
                  c = clean_content_from_xml_tags (Some raw_content) ''tool_call''
              in Inr \<lparr>tools_called = True, tool_calls = tcs, content = c\<rparr>))"

definition extract_hermes_tool_calls :: "string \<Rightarrow> extraction" where
  "extract_hermes_tool_calls model_output =
     (case extract_hermes_try model_output of
        Inl e \<Rightarrow> fallback model_output
      | Inr r \<Rightarrow> r)"

fun tools_tag_loop :: "(string \<times> string) list \<Rightarrow> py_error + tool_call list" where
  \<comment> \<open>the loop \<^verbatim>\<open>for i, match in enumerate(matches)\<close>: its handler catches the
      \<^verbatim>\<open>JSONDecodeError\<close> only\<close>
  "tools_tag_loop [] = Inr []"
| "tools_tag_loop (m # ms) =
     (case json_loads (strip (payload m)) of
        None \<Rightarrow> tools_tag_loop ms
      | Some function_call \<Rightarrow>
          (case function_call_of function_call of
             Inl e \<Rightarrow> Inl e
           | Inr tc \<Rightarrow>
               (case tools_tag_loop ms of Inl e \<Rightarrow> Inl e | Inr tcs \<Rightarrow> Inr (tc # tcs))))"

definition extract_tools_tag_try :: "string \<Rightarrow> py_error + extraction" where
  "extract_tools_tag_try model_output =
     (let matches = findall_envelope ''<tools>'' ''</tools>'' 0 model_output in
      if matches = [] then Inr (fallback model_output)
      else
        (case tools_tag_loop matches of
           Inl e \<Rightarrow> Inl e
         | Inr tcs \<Rightarrow>
             if tcs \<noteq> [] then
               (let content_end_idx = find_str ''<tools>'' model_output;
                    raw_content = (if content_end_idx > 0 then slice_to model_output content_end_idx
                                   else []);
                    c = clean_content_from_xml_tags (Some raw_content) ''tools''
                in Inr \<lparr>tools_called = True, tool_calls = tcs, content = c\<rparr>)
             else Inr (fallback model_output)))"

definition extract_tools_tag_format :: "string \<Rightarrow> extraction" where
  "extract_tools_tag_format model_output =
     (case extract_tools_tag_try model_output of
        Inl e \<Rightarrow> fallback model_output
      | Inr r \<Rightarrow> r)"

definition think_block_match :: "string \<Rightarrow> (string \<times> string) option" where
  \<comment> \<open>\<^verbatim>\<open>re.compile(r'^(<think>.*?</think>)\s*', re.DOTALL).match(text)\<close>: group 1 and
      \<^verbatim>\<open>text[match.end():]\<close>\<close>
  "think_block_match text =
     (if startswith text ''<think>'' then
        (let rest = drop 7 text; j = find_str ''</think>'' rest in
         if j < 0 then None
         else Some (''<think>'' @ slice_to rest j @ ''</think>'',
                    dropWhile is_space (slice_from rest (j + 8))))
      else None)"

definition extract_direct_json_try :: "string \<Rightarrow> py_error + extraction" where
  "extract_direct_json_try model_output =
     (let m = think_block_match model_output;
          thinking_content = map_option fst m;
          json_part = (case m of None \<Rightarrow> model_output | Some (_, after) \<Rightarrow> strip after);
          json_str = strip json_part
      in case json_loads json_str of
           None \<Rightarrow> Inl JSONDecodeError
         | Some function_call \<Rightarrow>
             (case py_in ''name'' function_call of
                Inl e \<Rightarrow> Inl e
              | Inr has_name \<Rightarrow>
                  (case (if has_name then py_in ''arguments'' function_call else Inr False) of
                     Inl e \<Rightarrow> Inl e
                   | Inr both \<Rightarrow>
                       if both then
                         (case function_call_of function_call of
                            Inl e \<Rightarrow> Inl e
                          | Inr tc \<Rightarrow>
                              Inr \<lparr>tools_called = True, tool_calls = [tc],
                                   content = thinking_content\<rparr>)
                       else Inr (fallback model_output))))"

definition extract_direct_json :: "string \<Rightarrow> extraction" where
  "extract_direct_json model_output =
     (case extract_direct_json_try model_output of
        Inl e \<Rightarrow> fallback model_output
      | Inr r \<Rightarrow> r)"

definition is_word_char :: "char \<Rightarrow> bool" where
  \<comment> \<open>the class \<^verbatim>\<open>\w\<close>: letters, digits and the underscore\<close>
  "is_word_char c \<longleftrightarrow>
     is_ascii_letter c \<or> is_digit c \<or> c = CHR ''_'' \<or> c = CHR 0xAA \<or> c = CHR 0xB5 \<or> c = CHR 0xBA
     \<or> ((of_char c :: nat) \<ge> 192 \<and> c \<noteq> CHR 0xD7 \<and> c \<noteq> CHR 0xF7)"

definition is_re_space :: "char \<Rightarrow> bool" where
  \<comment> \<open>the class \<^verbatim>\<open>\s\<close> of the \<^verbatim>\<open>regex\<close> module\<close>
  "is_re_space c \<longleftrightarrow>
     c \<in> set [CHR 0x09, CHR 0x0A, CHR 0x0B, CHR 0x0C, CHR 0x0D, CHR 0x20, CHR 0x85, CHR 0xA0]"

definition re_strip :: "string \<Rightarrow> string" where
  "re_strip s = rev (dropWhile is_re_space (rev (dropWhile is_re_space s)))"

fun findall_params :: "nat \<Rightarrow> string \<Rightarrow> (string \<times> string) list" where
  \<comment> \<open>\<^verbatim>\<open>re.compile(r'<(\w+)>\s*(.*?)\s*</\1>', re.DOTALL).findall(text)\<close> is
      \<open>findall_params 0 text\<close>. A match starts at a \<^verbatim>\<open><\<close> that is followed by a non-empty run
      of word characters and \<^verbatim>\<open>>\<close>, and ends with the first closing tag of that name;
      group 2 is what lies between, without the white space at its two ends. The counter is
      the number of characters of the match at hand that the scan still has to pass.\<close>
  "findall_params k [] = []"
| "findall_params (Suc k) (c # cs) = findall_params k cs"
| "findall_params 0 (c # cs) =
     (if c = CHR ''<'' then
        (let name = takeWhile is_word_char cs; after_name = dropWhile is_word_char cs in
         if name \<noteq> [] \<and> startswith after_name ''>'' then
           (let body = tl after_name; close = ''</'' @ name @ ''>''; j = find_str close body in
            if j < 0 then findall_params 0 cs
            else (name, re_strip (slice_to body j)) #
                   findall_params (length name + 1 + nat j + length close) cs)
         else findall_params 0 cs)
      else findall_params 0 cs)"

definition findall_inner_tags :: "string \<Rightarrow> string list" where
  \<comment> \<open>\<^verbatim>\<open>re.compile(r'<(\w+)>.*?</\1>', re.DOTALL).findall(text)\<close>: the same matches, and the
      one group is the name\<close>
  "findall_inner_tags text = map fst (findall_params 0 text)"

definition param_value_of :: "string \<Rightarrow> json" where
  \<comment> \<open>the value stored for one parameter: JSON when it looks like JSON and parses\<close>
  "param_value_of v =
     (let param_value = strip v in
      if startswith param_value ''{'' \<or> startswith param_value ''['' then
        (case json_loads param_value of Some parsed \<Rightarrow> parsed | None \<Rightarrow> JStr param_value)
      else JStr param_value)"

fun roo_xml_loop :: "string list \<Rightarrow> string \<Rightarrow> tool_call list \<times> string option" where
  \<comment> \<open>the loop \<^verbatim>\<open>for tool_name in ROO_TOOLS\<close> of \<^verbatim>\<open>_extract_roo_xml_tool_calls\<close>, which ends
      at the first tool whose opening tag is in the text; the result is \<^verbatim>\<open>tool_calls\<close> and
      \<^verbatim>\<open>content\<close>\<close>
  "roo_xml_loop [] model_output = ([], None)"
| "roo_xml_loop (tool_name # tools) model_output =
     (let start_tag = ''<'' @ tool_name @ ''>''; end_tag = ''</'' @ tool_name @ ''>'' in
      if \<not> contains start_tag model_output then roo_xml_loop tools model_output
      else
        (let start_idx = find_str start_tag model_output;
             end_idx = find_str end_tag model_output;
             xml_content =
               (if end_idx = - 1 then slice_from model_output (start_idx + int (length start_tag))
                else slice model_output (start_idx + int (length start_tag)) end_idx);
             arguments = foldl (\<lambda>d (param_name, v). dict_set d param_name (param_value_of v)) []
                           (findall_params 0 xml_content);
             tc = \<lparr>tc_name = tool_name, tc_arguments = json_dumps (JObj arguments)\<rparr>;
             raw_content = (if start_idx > 0 then slice_to model_output start_idx else [])
         in ([tc], clean_content_from_xml_tags (Some raw_content) tool_name)))"

definition extract_roo_xml_tool_calls :: "string \<Rightarrow> extraction" where
  \<comment> \<open>no statement of its \<^verbatim>\<open>try\<close> block raises: the one \<^verbatim>\<open>json.loads\<close> has its own handler\<close>
  "extract_roo_xml_tool_calls model_output =
     (case roo_xml_loop ROO_TOOLS model_output of
        (tcs, c) \<Rightarrow>
          if tcs \<noteq> [] then \<lparr>tools_called = True, tool_calls = tcs, content = c\<rparr>
          else fallback model_output)"

definition extract_tool_calls :: "string \<Rightarrow> extraction" where
  "extract_tool_calls model_output =
     (let has_hermes = has_hermes_format model_output;
          has_tools = has_tools_tag_format model_output;
          has_roo = has_roo_xml_format model_output;
          has_json = has_direct_json_format model_output
      in if has_hermes then extract_hermes_tool_calls model_output
         else if has_tools then extract_tools_tag_format model_output
         else if has_json then extract_direct_json model_output
         else if has_roo then extract_roo_xml_tool_calls model_output
         else \<lparr>tools_called = False, tool_calls = [], content = Some model_output\<rparr>)"

section \<open>The partial-tag recognizer\<close>

definition partial_tag_match :: "string \<Rightarrow> string \<Rightarrow> bool" where
  \<comment> \<open>the test of one \<^verbatim>\<open>tool_name\<close> against the text after the last \<^verbatim>\<open><\<close>\<close>
  "partial_tag_match after_lt tool_name =
     (let partial_tag = ''<'' @ tool_name in
      if startswith after_lt ''</'' then
        (let close_partial = ''</'' @ tool_name in
         startswith close_partial after_lt \<or> startswith after_lt close_partial)
      else startswith partial_tag after_lt \<or> startswith after_lt partial_tag)"

definition is_accumulating_xml_tag :: "string \<Rightarrow> bool \<times> string option" where
  "is_accumulating_xml_tag text =
     (if endswith (rstrip text) ''<'' then (True, None)
      else
        (let last_lt = rfind_str ''<'' text;
             partial =
               (if last_lt \<ge> 0 then
                  (let after_lt = slice_from text last_lt in
                   if \<not> contains ''>'' after_lt
                   then find (partial_tag_match after_lt) (ROO_TOOLS @ [''tool_call'', ''tools''])
                   else None)
                else None)
         in case partial of
              Some tool_name \<Rightarrow> (True, Some tool_name)
            | None \<Rightarrow>
                (case find (\<lambda>tool_name. contains (''<'' @ tool_name @ ''>'') text
                                        \<and> \<not> contains (''</'' @ tool_name @ ''>'') text) ROO_TOOLS of
                   Some tool_name \<Rightarrow> (True, Some tool_name)
                 | None \<Rightarrow>
                     if contains ''<tool_call>'' text \<and> \<not> contains ''</tool_call>'' text
                     then (True, Some ''tool_call'')
                     else if contains ''<tools'' text \<and> \<not> contains ''</tools>'' text
                     then (True, Some ''tools'')
                     else (False, None))))"

section \<open>The streaming state machine\<close>

text \<open>
  The fields of the parser object that the streaming methods read and write. The two token
  arrays are the decoded tokens of the start and end sentinel, fixed by the tokenizer when
  the parser is built. A \<^verbatim>\<open>DeltaToolCall\<close> is its index, name and argument string; its
  random \<^verbatim>\<open>id\<close> is left out. The fields of \<^verbatim>\<open>DeltaFunctionCall\<close> and \<^verbatim>\<open>DeltaMessage\<close> are
  declared \<^verbatim>\<open>str\<close>, and any other value fails their validation.
\<close>

record parser_state =
  current_tool_id :: int
  prev_tool_call_arr :: "(json \<times> json) list"
  streamed_args_for_tool :: "string list"
  buffered_delta_text :: string
  tool_call_start_token_array :: "string list"
  tool_call_end_token_array :: "string list"

definition init_state :: "string list \<Rightarrow> string list \<Rightarrow> parser_state" where
  \<comment> \<open>the state after \<^verbatim>\<open>__init__\<close>\<close>
  "init_state start_array end_array =
     \<lparr>current_tool_id = - 1, prev_tool_call_arr = [], streamed_args_for_tool = [],
      buffered_delta_text = [], tool_call_start_token_array = start_array,
      tool_call_end_token_array = end_array\<rparr>"

record delta_tool_call =
  dtc_index :: int
  dtc_name :: string
  dtc_arguments :: string

record delta_message =
  dm_content :: "string option"
  dm_tool_calls :: "delta_tool_call list"

type_synonym step_result = "(py_error + delta_message option) \<times> parser_state"

definition may_emit :: "parser_state \<Rightarrow> bool" where
  \<comment> \<open>the guard \<^verbatim>\<open>self.current_tool_id < 0 or len(self.prev_tool_call_arr) == 0\<close>\<close>
  "may_emit st \<longleftrightarrow> current_tool_id st < 0 \<or> length (prev_tool_call_arr st) = 0"

definition py_get :: "json \<Rightarrow> string \<Rightarrow> json \<Rightarrow> py_error + json" where
  \<comment> \<open>\<^verbatim>\<open>v.get(key, default)\<close>; only a dict has the method\<close>
  "py_get v key dflt =
     (case v of
        JObj d \<Rightarrow> Inr (case dict_get d key of None \<Rightarrow> dflt | Some x \<Rightarrow> x)
      | _ \<Rightarrow> Inl AttributeError)"

definition truthy :: "json \<Rightarrow> bool" where
  \<comment> \<open>the truth value of a Python object\<close>
  "truthy v =
     (case v of
        JNull \<Rightarrow> False
      | JBool b \<Rightarrow> b
      | JInt i \<Rightarrow> i \<noteq> 0
      | JFloat l \<Rightarrow> True
      | JStr s \<Rightarrow> s \<noteq> []
      | JArr xs \<Rightarrow> xs \<noteq> []
      | JObj d \<Rightarrow> d \<noteq> [])"

definition tool_call_delta_buffer :: "parser_state \<Rightarrow> string \<Rightarrow> (py_error + string) \<times> parser_state" where
  \<comment> \<open>\<^verbatim>\<open>xs[-1]\<close> of an empty list raises\<close>
  "tool_call_delta_buffer st delta_text =
     (let flush = (Inr (buffered_delta_text st @ delta_text), st\<lparr>buffered_delta_text := []\<rparr>);
          keep = (Inr [], st\<lparr>buffered_delta_text := buffered_delta_text st @ delta_text\<rparr>)
      in if delta_text \<in> set (tool_call_start_token_array st)
            \<or> delta_text \<in> set (tool_call_end_token_array st)
         then
           (if tool_call_start_token_array st = [] then (Inl IndexError, st)
            else if delta_text = last (tool_call_start_token_array st) then flush
            else if tool_call_end_token_array st = [] then (Inl IndexError, st)
            else if delta_text = last (tool_call_end_token_array st) then flush
            else keep)
         else if buffered_delta_text st \<noteq> [] then flush
         else (Inr delta_text, st))"

definition emit_tool_call :: "parser_state \<Rightarrow> string option \<Rightarrow> json \<Rightarrow> json \<Rightarrow> string \<Rightarrow> step_result" where
  \<comment> \<open>The statements shared by the five emitting branches once name and arguments are at
      hand: the two appends, then the \<^verbatim>\<open>DeltaMessage\<close>, whose construction fails when the
      name is not a string. \<^verbatim>\<open>current_tool_id\<close> has been incremented by the caller.\<close>
  "emit_tool_call st thinking name arguments args_str =
     (let st' = st\<lparr>prev_tool_call_arr := prev_tool_call_arr st @ [(name, arguments)],
                   streamed_args_for_tool := streamed_args_for_tool st @ [args_str]\<rparr>
      in case name of
           JStr n \<Rightarrow>
             (Inr (Some \<lparr>dm_content = thinking,
                         dm_tool_calls = [\<lparr>dtc_index = current_tool_id st', dtc_name = n,
                                           dtc_arguments = args_str\<rparr>]\<rparr>), st')
         | _ \<Rightarrow> (Inl ValidationError, st'))"

definition search_tools_envelope :: "string \<Rightarrow> string option" where
  \<comment> \<open>\<^verbatim>\<open>re.compile(r"<tools>(.*?)</tools>", re.DOTALL).search(text)\<close>: group 1\<close>
  "search_tools_envelope text =
     (let i = find_str ''<tools>'' text in
      if i < 0 then None
      else
        (let rest = slice_from text (i + 7); j = find_str ''</tools>'' rest in
         if j < 0 then None else Some (slice_to rest j)))"

definition streaming_extract_tools_format :: "parser_state \<Rightarrow> string \<Rightarrow> step_result" where
  \<comment> \<open>the handler of its \<^verbatim>\<open>try\<close> block catches the \<^verbatim>\<open>JSONDecodeError\<close> only\<close>
  "streaming_extract_tools_format st current_text =
     (case search_tools_envelope current_text of
        None \<Rightarrow> (Inr None, st)
      | Some g \<Rightarrow>
          (case json_loads (strip g) of
             None \<Rightarrow> (Inr None, st)
           | Some function_call \<Rightarrow>
               if may_emit st then
                 (let st1 = st\<lparr>current_tool_id := current_tool_id st + 1\<rparr> in
                  case subscript function_call ''name'' of
                    Inl e \<Rightarrow> (Inl e, st1)
                  | Inr name \<Rightarrow>
                      (case py_get function_call ''arguments'' (JObj []) of
                         Inl e \<Rightarrow> (Inl e, st1)
                       | Inr arguments \<Rightarrow>
                           emit_tool_call st1 None name arguments (json_dumps arguments)))
               else (Inr None, st)))"

fun streaming_roo_loop :: "string list \<Rightarrow> parser_state \<Rightarrow> string \<Rightarrow> step_result" where
  \<comment> \<open>the loop \<^verbatim>\<open>for tool_name in ROO_TOOLS\<close> of \<^verbatim>\<open>_streaming_extract_roo_xml\<close>; an iteration
      whose guard fails falls through to the next tool\<close>
  "streaming_roo_loop [] st current_text = (Inr None, st)"
| "streaming_roo_loop (tool_name # tools) st current_text =
     (let start_tag = ''<'' @ tool_name @ ''>''; end_tag = ''</'' @ tool_name @ ''>'' in
      if \<not> contains start_tag current_text \<or> \<not> contains end_tag current_text
      then streaming_roo_loop tools st current_text
      else
        (let start_idx = find_str start_tag current_text;
             end_idx = find_str end_tag current_text;
             xml_content = slice current_text (start_idx + int (length start_tag)) end_idx;
             inner_matches = findall_inner_tags xml_content
         in if length inner_matches = 0 then (Inr None, st)
            else
              (let result = extract_roo_xml_tool_calls current_text in
               if \<not> tools_called result \<or> tool_calls result = [] then (Inr None, st)
               else
                 (let tc = hd (tool_calls result) in
                  case (if tc_arguments tc \<noteq> ''{}'' then json_loads (tc_arguments tc)
                        else Some (JObj [])) of
                    None \<Rightarrow> (Inl JSONDecodeError, st)
                  | Some args_dict \<Rightarrow>
                      if \<not> truthy args_dict then (Inr None, st)
                      else if may_emit st then
                        emit_tool_call (st\<lparr>current_tool_id := current_tool_id st + 1\<rparr>) None
                          (JStr (tc_name tc)) args_dict (tc_arguments tc)
                      else streaming_roo_loop tools st current_text))))"

definition streaming_extract_roo_xml :: "parser_state \<Rightarrow> string \<Rightarrow> step_result" where
  "streaming_extract_roo_xml st current_text = streaming_roo_loop ROO_TOOLS st current_text"

definition last_chars :: "string \<Rightarrow> nat \<Rightarrow> string" where
  \<comment> \<open>\<^verbatim>\<open>s[-n:]\<close> for \<open>n \<le> len(s)\<close>; the whole of \<open>s\<close> when \<open>n = 0\<close>\<close>
  "last_chars s n = (if n = 0 then s else drop (length s - n) s)"

definition without_last_chars :: "string \<Rightarrow> nat \<Rightarrow> string" where
  \<comment> \<open>\<^verbatim>\<open>s[:-n]\<close> for \<open>n \<le> len(s)\<close>; empty when \<open>n = 0\<close>\<close>
  "without_last_chars s n = (if n = 0 then [] else take (length s - n) s)"

definition hermes_after_buffer :: "parser_state \<Rightarrow> string \<Rightarrow> string \<Rightarrow> string \<Rightarrow> step_result" where
  \<comment> \<open>the statements of \<^verbatim>\<open>_streaming_extract_hermes\<close> after the call of
      \<^verbatim>\<open>tool_call_delta_buffer\<close>, which has returned \<open>delta_text\<close>\<close>
  "hermes_after_buffer st previous_text0 current_text0 delta_text =
     (let n = length (buffered_delta_text st);
          spliced = (length previous_text0 \<ge> n
                     \<and> last_chars previous_text0 n = buffered_delta_text st);
          previous_text = (if spliced then without_last_chars previous_text0 n
                           else previous_text0);
          current_text = (if spliced then previous_text @ delta_text else current_text0)
      in if \<not> contains ''</tool_call>'' current_text then (Inr None, st)
         else
           (let result = extract_hermes_tool_calls current_text in
            if \<not> tools_called result \<or> tool_calls result = [] then (Inr None, st)
            else
              (let tc = hd (tool_calls result) in
               if may_emit st then
                 (let st2 = st\<lparr>current_tool_id := current_tool_id st + 1\<rparr> in
                  case json_loads (tc_arguments tc) of
                    None \<Rightarrow> (Inl JSONDecodeError, st2)
                  | Some args_dict \<Rightarrow>
                      emit_tool_call st2 None (JStr (tc_name tc)) args_dict (tc_arguments tc))
               else (Inr None, st))))"

definition streaming_extract_hermes :: "parser_state \<Rightarrow> string \<Rightarrow> string \<Rightarrow> string \<Rightarrow> step_result" where
  "streaming_extract_hermes st previous_text current_text delta_text0 =
     (case tool_call_delta_buffer st delta_text0 of
        (Inl e, st1) \<Rightarrow> (Inl e, st1)
      | (Inr delta_text, st1) \<Rightarrow> hermes_after_buffer st1 previous_text current_text delta_text)"

definition streaming_json_try :: "parser_state \<Rightarrow> string option \<Rightarrow> string \<Rightarrow> step_result" where
  \<comment> \<open>the statements that the \<^verbatim>\<open>try\<close> blocks of \<^verbatim>\<open>_streaming_extract_think_json\<close> and
      \<^verbatim>\<open>_streaming_extract_direct_json\<close> share, from \<^verbatim>\<open>json.loads\<close> on\<close>
  "streaming_json_try st thinking json_str =
     (case json_loads json_str of
        None \<Rightarrow> (Inl JSONDecodeError, st)
      | Some function_call \<Rightarrow>
          (case py_in ''name'' function_call of
             Inl e \<Rightarrow> (Inl e, st)
           | Inr has_name \<Rightarrow>
               if \<not> has_name then (Inr None, st)
               else
                 (case subscript function_call ''name'' of
                    Inl e \<Rightarrow> (Inl e, st)
                  | Inr tool_name \<Rightarrow>
                      (case py_get function_call ''arguments'' (JObj []) of
                         Inl e \<Rightarrow> (Inl e, st)
                       | Inr arguments \<Rightarrow>
                           if may_emit st then
                             emit_tool_call (st\<lparr>current_tool_id := current_tool_id st + 1\<rparr>)
                               thinking tool_name arguments (json_dumps arguments)
                           else (Inr None, st)))))"

definition catch_all :: "step_result \<Rightarrow> step_result" where
  \<comment> \<open>\<^verbatim>\<open>except Exception: return None\<close>; what the block wrote to the state stays written\<close>
  "catch_all r = (case r of (Inl e, st) \<Rightarrow> (Inr None, st) | (Inr d, st) \<Rightarrow> (Inr d, st))"

definition streaming_extract_think_json :: "parser_state \<Rightarrow> string \<Rightarrow> step_result" where
  "streaming_extract_think_json st current_text =
     catch_all
       (case think_json_match (strip current_text) of
          None \<Rightarrow> (Inr None, st)
        | Some (thinking_content, json_str) \<Rightarrow>
            streaming_json_try st (Some thinking_content) json_str)"

definition streaming_extract_direct_json :: "parser_state \<Rightarrow> string \<Rightarrow> step_result" where
  "streaming_extract_direct_json st current_text =
     catch_all (streaming_json_try st None (strip current_text))"

fun json_complete :: "int \<Rightarrow> string \<Rightarrow> bool" where
  \<comment> \<open>the brace-counting loop, entered with \<^verbatim>\<open>brace_count = 0\<close>\<close>
  "json_complete brace_count [] = False"
| "json_complete brace_count (c # cs) =
     (if c = CHR ''{'' then json_complete (brace_count + 1) cs
      else if c = CHR ''}'' then
        (if brace_count - 1 = 0 then True else json_complete (brace_count - 1) cs)
      else json_complete brace_count cs)"

fun lt_then_letter :: "string \<Rightarrow> bool" where
  \<comment> \<open>\<^verbatim>\<open>re.search(r'<[a-zA-Z_]', text)\<close>\<close>
  "lt_then_letter (c # d # cs) =
     ((c = CHR ''<'' \<and> (is_ascii_letter d \<or> d = CHR ''_'')) \<or> lt_then_letter (d # cs))"
| "lt_then_letter cs = False"

definition extract_tool_calls_streaming :: "parser_state \<Rightarrow> string \<Rightarrow> string \<Rightarrow> string \<Rightarrow> step_result" where
  "extract_tool_calls_streaming st previous_text current_text delta_text =
     (let stripped = strip current_text;
          emit_content = (Inr (Some \<lparr>dm_content = Some delta_text, dm_tool_calls = []\<rparr>), st)
      in
      if startswith stripped ''<think>'' then
        (if contains ''</think>'' stripped then
           (case think_json_match stripped of
              Some (_, json_part) \<Rightarrow>
                if contains ''\"name\"'' json_part \<and> contains ''\"arguments\"'' json_part then
                  (if json_complete 0 json_part then streaming_extract_think_json st current_text
                   else (Inr None, st))
                else (Inr None, st)
            | None \<Rightarrow> (Inr None, st))
         else (Inr None, st))
      else if startswith stripped ''{'' then
        (if contains ''\"name\"'' stripped then
           (if json_complete 0 stripped then streaming_extract_direct_json st current_text
            else (Inr None, st))
         else (Inr None, st))
      else if contains ''<'' current_text then
        (if has_roo_xml_format current_text then streaming_extract_roo_xml st current_text
         else if has_hermes_format current_text \<and> contains ''</tool_call>'' current_text then
           streaming_extract_hermes st previous_text current_text delta_text
         else if has_tools_tag_format current_text \<and> contains ''</tools>'' current_text then
           streaming_extract_tools_format st current_text
         else if fst (is_accumulating_xml_tag current_text) then (Inr None, st)
         else if lt_then_letter current_text then (Inr None, st)
         else emit_content)
      else emit_content)"

subsection \<open>A stream\<close>



definition emitted_calls :: "py_error + delta_message option \<Rightarrow> delta_tool_call list" where
  \<comment> \<open>the tool calls that one call of the streaming method hands to its caller\<close>
  "emitted_calls r = (case r of Inr (Some d) \<Rightarrow> dm_tool_calls d | _ \<Rightarrow> [])"



section \<open>Inputs and notions of the statements\<close>

definition scenario_1 :: string where
  \<comment> \<open>the input of Scenario 1; the two line breaks are written as characters\<close>
  "scenario_1 = ''Hello<tool_call>'' @ [CHR 0x0A]
     @ ''{\"name\": \"read_file\", \"arguments\": {\"path\": \"a.txt\"}}'' @ [CHR 0x0A]
     @ ''</tool_call>''"

definition priority_example :: string where
  \<comment> \<open>a text with a complete tag-per-call span followed by a complete envelope\<close>
  "priority_example =
     ''<read_file><path>a</path></read_file><tool_call>{\"name\": \"x\", \"arguments\": {}}</tool_call>''"



definition step_ok :: "parser_state \<Rightarrow> step_result \<Rightarrow> bool" where
  \<comment> \<open>what one call may do to the bookkeeping, from the state \<open>st\<close> it starts in: the counter and
      the list of calls only grow, and a call is emitted only under the guard, alone, with
      one increment and a non-empty list after it\<close>
  "step_ok st res \<longleftrightarrow>
     current_tool_id st \<le> current_tool_id (snd res)
     \<and> length (prev_tool_call_arr st) \<le> length (prev_tool_call_arr (snd res))
     \<and> (emitted_calls (fst res) \<noteq> [] \<longrightarrow>
          may_emit st \<and> length (emitted_calls (fst res)) = 1
          \<and> prev_tool_call_arr (snd res) \<noteq> []
          \<and> current_tool_id (snd res) = current_tool_id st + 1)"





definition bookkeeping_ok :: "parser_state \<Rightarrow> bool" where
  \<comment> \<open>\<^verbatim>\<open>current_tool_id + 1 == len(prev_tool_call_arr) == len(streamed_args_for_tool)\<close>\<close>
  "bookkeeping_ok st \<longleftrightarrow>
     current_tool_id st + 1 = int (length (prev_tool_call_arr st))
     \<and> length (prev_tool_call_arr st) = length (streamed_args_for_tool st)"

definition appends_paired :: "parser_state \<Rightarrow> step_result \<Rightarrow> bool" where
  \<comment> \<open>one call leaves both lists as they were, and the counter too unless it raised, or it
      appends one entry to each list and increments the counter once\<close>
  "appends_paired st res \<longleftrightarrow>
     (prev_tool_call_arr (snd res) = prev_tool_call_arr st
        \<and> streamed_args_for_tool (snd res) = streamed_args_for_tool st
        \<and> (isl (fst res) \<or> current_tool_id (snd res) = current_tool_id st))
     \<or> (\<exists>e a. prev_tool_call_arr (snd res) = prev_tool_call_arr st @ [e]
            \<and> streamed_args_for_tool (snd res) = streamed_args_for_tool st @ [a]
            \<and> current_tool_id (snd res) = current_tool_id st + 1)"

section \<open>Facts about the string functions\<close>

lemma startswith_set: "startswith s p \<Longrightarrow> set p \<subseteq> set s"
  by (induction s p rule: startswith.induct) auto

lemma contains_set: "contains p s \<Longrightarrow> set p \<subseteq> set s"
proof (induction s)
  case Nil
  then show ?case by simp
next
  case (Cons c cs)
  from Cons.prems have "startswith (c # cs) p \<or> contains p cs" by simp
  then show ?case using startswith_set Cons.IH by fastforce
qed

lemma set_strip: "set (strip s) \<subseteq> set s"
  unfolding strip_def lstrip_def rstrip_def
  by (metis set_dropWhileD set_rev subsetI)

lemma think_json_match_needs_lt: "CHR ''<'' \<notin> set s \<Longrightarrow> think_json_match s = None"
  by (auto simp: think_json_match_def dest: startswith_set)

section \<open>Batch extraction\<close>

text \<open>
  C6. Pure-narration identity: for every input string that contains no \<^verbatim>\<open><\<close> and no \<^verbatim>\<open>{\<close>,
  \<^verbatim>\<open>extract_tool_calls\<close> returns \<^verbatim>\<open>tools_called = False\<close>, an empty list of tool calls and the
  input itself, character for character, as content.
\<close>

theorem pure_narration_identity:
  assumes "CHR ''<'' \<notin> set s" and "CHR ''{'' \<notin> set s"
  shows "extract_tool_calls s = \<lparr>tools_called = False, tool_calls = [], content = Some s\<rparr>"
proof -
  have h: "\<not> has_hermes_format s"
    using assms(1) by (auto simp: has_hermes_format_def tool_call_start_token_def dest: contains_set)
  have t: "\<not> has_tools_tag_format s"
    using assms(1) by (auto simp: has_tools_tag_format_def dest: contains_set)
  have r: "\<not> has_roo_xml_format s"
    using assms(1) by (auto simp: has_roo_xml_format_def dest: contains_set)
  have a: "CHR ''<'' \<notin> set (strip s)" "CHR ''{'' \<notin> set (strip s)"
    using assms set_strip by blast+
  have j: "\<not> has_direct_json_format s"
    using a
    by (auto simp: has_direct_json_format_def Let_def think_json_match_needs_lt
        dest: startswith_set)
  show ?thesis using h t r j by (simp add: extract_tool_calls_def)
qed

theorem pure_narration_identity_witness:
  "CHR ''<'' \<notin> set ''hello world'' \<and> CHR ''{'' \<notin> set ''hello world''
   \<and> extract_tool_calls ''hello world''
       = \<lparr>tools_called = False, tool_calls = [], content = Some ''hello world''\<rparr>"
  using pure_narration_identity [of "''hello world''"] by simp

text \<open>
  C5. Scenario 1: on the input
  \<^verbatim>\<open>Hello<tool_call>\n{"name": "read_file", "arguments": {"path": "a.txt"}}\n</tool_call>\<close>
  the extractor returns exactly one call, named \<^verbatim>\<open>read_file\<close>, with narration \<^verbatim>\<open>Hello\<close>.
  The claim gives the argument string as \<^verbatim>\<open>{"path":"a.txt"}\<close>; the code serializes with the
  default separators of \<^verbatim>\<open>json.dumps\<close>, so the string is \<^verbatim>\<open>{"path": "a.txt"}\<close>, with a space
  after the colon. The first theorem is the claim as amended, the second refutes the compact
  string.
\<close>

theorem scenario_1_result:
  "extract_tool_calls scenario_1
     = \<lparr>tools_called = True,
        tool_calls = [\<lparr>tc_name = ''read_file'', tc_arguments = ''{\"path\": \"a.txt\"}''\<rparr>],
        content = Some ''Hello''\<rparr>"
  by code_simp

theorem scenario_1_arguments_not_compact:
  "map tc_arguments (tool_calls (extract_tool_calls scenario_1)) \<noteq> [''{\"path\":\"a.txt\"}'']"
  by code_simp

text \<open>
  C2. The claim is that every result of \<^verbatim>\<open>extract_tool_calls\<close> has
  \<^verbatim>\<open>tools_called == (len(tool_calls) > 0)\<close>. The Hermes extractor returns
  \<^verbatim>\<open>tools_called = True\<close> whatever the number of calls it built: on an envelope whose
  payload is not JSON the inner handler skips the payload, and the result has
  \<^verbatim>\<open>tools_called = True\<close> with no tool call. The theorem evaluates the code on the shortest
  such input, an opening sentinel with nothing after it.
\<close>

theorem hermes_unparsed_envelope_tools_called:
  "extract_tool_calls ''<tool_call>''
     = \<lparr>tools_called = True, tool_calls = [], content = None\<rparr>"
  by code_simp

text \<open>
  C3. Detection priority: a text that contains the start sentinel \<^verbatim>\<open><tool_call>\<close> and an
  opening tag of a name in \<^verbatim>\<open>ROO_TOOLS\<close> is extracted by the Hermes extractor; and in general
  the four format predicates are tried in the order Hermes, \<^verbatim>\<open><tools>\<close>, direct JSON,
  Roo XML, the first that holds deciding the extractor.
\<close>

theorem detection_priority:
  "(contains ''<tool_call>'' s \<and> (\<exists>t \<in> set ROO_TOOLS. contains (''<'' @ t @ ''>'') s)
      \<longrightarrow> extract_tool_calls s = extract_hermes_tool_calls s)
   \<and> extract_tool_calls s =
       (if has_hermes_format s then extract_hermes_tool_calls s
        else if has_tools_tag_format s then extract_tools_tag_format s
        else if has_direct_json_format s then extract_direct_json s
        else if has_roo_xml_format s then extract_roo_xml_tool_calls s
        else \<lparr>tools_called = False, tool_calls = [], content = Some s\<rparr>)"
  by (simp add: extract_tool_calls_def has_hermes_format_def tool_call_start_token_def)

theorem detection_priority_witness:
  "contains ''<tool_call>'' priority_example
   \<and> (\<exists>t \<in> set ROO_TOOLS. contains (''<'' @ t @ ''>'') priority_example)
   \<and> extract_tool_calls priority_example = extract_hermes_tool_calls priority_example
   \<and> extract_tool_calls priority_example
       = \<lparr>tools_called = True, tool_calls = [\<lparr>tc_name = ''x'', tc_arguments = ''{}''\<rparr>],
          content = Some ''<path>a</path>''\<rparr>
   \<and> extract_tool_calls priority_example \<noteq> extract_roo_xml_tool_calls priority_example"
proof -
  have a: "contains ''<tool_call>'' priority_example" by code_simp
  have "has_roo_xml_format priority_example" by code_simp
  then have b: "\<exists>t \<in> set ROO_TOOLS. contains (''<'' @ t @ ''>'') priority_example"
    by (simp only: has_roo_xml_format_def)
  have c: "extract_hermes_tool_calls priority_example
       = \<lparr>tools_called = True, tool_calls = [\<lparr>tc_name = ''x'', tc_arguments = ''{}''\<rparr>],
          content = Some ''<path>a</path>''\<rparr>" by code_simp
  have d: "extract_roo_xml_tool_calls priority_example
       \<noteq> \<lparr>tools_called = True, tool_calls = [\<lparr>tc_name = ''x'', tc_arguments = ''{}''\<rparr>],
          content = Some ''<path>a</path>''\<rparr>" by code_simp
  from detection_priority [of priority_example] a b
  have e: "extract_tool_calls priority_example = extract_hermes_tool_calls priority_example"
    by blast
  show ?thesis using a b c d e by simp
qed



section \<open>Streaming\<close>

text \<open>
  C10. The claim is that after every call of \<^verbatim>\<open>extract_tool_calls_streaming\<close> on a fresh
  parser \<^verbatim>\<open>current_tool_id + 1 == len(prev_tool_call_arr) == len(streamed_args_for_tool)\<close>.
  \<^verbatim>\<open>_streaming_extract_tools_format\<close> increments \<^verbatim>\<open>current_tool_id\<close> before it looks the name
  up, and its handler catches the \<^verbatim>\<open>JSONDecodeError\<close> only: on a complete \<^verbatim>\<open><tools>\<close> envelope
  whose object has no key \<^verbatim>\<open>name\<close> the call ends in a \<^verbatim>\<open>KeyError\<close> with the counter at 0 and
  both lists empty. The theorem evaluates the code there, for every pair of token arrays.
\<close>

theorem tools_format_key_error_state:
  "extract_tool_calls_streaming (init_state start_array end_array) []
       ''<tools>{\"arguments\": \"name\"}</tools>'' []
     = (Inl KeyError,
        \<lparr>current_tool_id = 0, prev_tool_call_arr = [], streamed_args_for_tool = [],
         buffered_delta_text = [], tool_call_start_token_array = start_array,
         tool_call_end_token_array = end_array\<rparr>)
   \<and> bookkeeping_ok (init_state start_array end_array)
   \<and> \<not> bookkeeping_ok
         (snd (extract_tool_calls_streaming (init_state start_array end_array) []
                 ''<tools>{\"arguments\": \"name\"}</tools>'' []))"
  by code_simp

section \<open>The sanitizer\<close>

















section \<open>Streams of narration\<close>






section \<open>Emission of tool calls\<close>

lemma step_ok_same [simp]:
  "step_ok st (Inr None, st)" "step_ok st (Inl e, st)"
  "step_ok st (Inr (Some \<lparr>dm_content = c, dm_tool_calls = []\<rparr>), st)"
  by (simp_all add: step_ok_def emitted_calls_def)


















section \<open>Tag pairs without parameters\<close>









































section \<open>Bookkeeping of the calls that return\<close>

text \<open>
  Every call of the streaming method either leaves both lists as they are or appends one
  entry to each of them together with one increment of the counter, so the lists are
  append-only and of equal length. A call that returns keeps
  \<^verbatim>\<open>current_tool_id + 1 == len(prev_tool_call_arr) == len(streamed_args_for_tool)\<close>; only a call
  that ends in an exception can leave the counter ahead of the lists.
\<close>

lemma appends_paired_same [simp]:
  "appends_paired st (r, st)"
  by (simp add: appends_paired_def)

lemma appends_paired_raise:
  "prev_tool_call_arr st1 = prev_tool_call_arr st
     \<Longrightarrow> streamed_args_for_tool st1 = streamed_args_for_tool st
     \<Longrightarrow> appends_paired st (Inl e, st1)"
  by (simp add: appends_paired_def)

lemma appends_paired_emit:
  "current_tool_id st1 = current_tool_id st + 1
     \<Longrightarrow> prev_tool_call_arr st1 = prev_tool_call_arr st
     \<Longrightarrow> streamed_args_for_tool st1 = streamed_args_for_tool st
     \<Longrightarrow> appends_paired st (emit_tool_call st1 thinking name arguments args_str)"
  by (cases name) (simp_all add: appends_paired_def emit_tool_call_def Let_def)

lemma appends_paired_tools: "appends_paired st (streaming_extract_tools_format st current_text)"
  by (auto simp: streaming_extract_tools_format_def Let_def
      intro!: appends_paired_emit appends_paired_raise split: option.splits sum.splits)

lemma appends_paired_roo_loop: "appends_paired st (streaming_roo_loop tools st current_text)"
  by (induction tools)
    (auto simp: Let_def intro!: appends_paired_emit appends_paired_raise split: option.splits)

lemma delta_buffer_lists:
  "tool_call_delta_buffer st d = (r, st1)
     \<Longrightarrow> current_tool_id st1 = current_tool_id st
         \<and> prev_tool_call_arr st1 = prev_tool_call_arr st
         \<and> streamed_args_for_tool st1 = streamed_args_for_tool st"
  by (auto simp: tool_call_delta_buffer_def Let_def split: if_splits)

lemma appends_paired_frame:
  "current_tool_id st1 = current_tool_id st \<Longrightarrow> prev_tool_call_arr st1 = prev_tool_call_arr st
     \<Longrightarrow> streamed_args_for_tool st1 = streamed_args_for_tool st
     \<Longrightarrow> appends_paired st1 res \<Longrightarrow> appends_paired st res"
  by (simp add: appends_paired_def)

lemma appends_paired_hermes_after: "appends_paired st (hermes_after_buffer st p c d)"
  by (auto simp: hermes_after_buffer_def Let_def
      intro!: appends_paired_emit appends_paired_raise split: option.splits)

lemma appends_paired_hermes: "appends_paired st (streaming_extract_hermes st p c d)"
proof (cases "tool_call_delta_buffer st d")
  case (Pair r st1)
  note fr = delta_buffer_lists [OF Pair]
  show ?thesis
  proof (cases r)
    case (Inl e)
    then show ?thesis using Pair fr
      by (simp add: streaming_extract_hermes_def appends_paired_raise)
  next
    case (Inr delta_text)
    have "appends_paired st (hermes_after_buffer st1 p c delta_text)"
      using fr by (intro appends_paired_frame [OF _ _ _ appends_paired_hermes_after]) simp_all
    then show ?thesis
      by (simp add: streaming_extract_hermes_def Pair Inr)
  qed
qed

lemma json_try_paired:
  "appends_paired st (streaming_json_try st thinking json_str)
   \<and> (prev_tool_call_arr (snd (streaming_json_try st thinking json_str)) = prev_tool_call_arr st
        \<longrightarrow> current_tool_id (snd (streaming_json_try st thinking json_str)) = current_tool_id st)"
proof -
  have e: "prev_tool_call_arr (snd (emit_tool_call st1 th n a s)) = prev_tool_call_arr st1 @ [(n, a)]"
    for st1 th n a s
    by (cases n) (simp_all add: emit_tool_call_def Let_def)
  show ?thesis
    by (auto simp: streaming_json_try_def e intro!: appends_paired_emit
        split: option.splits sum.splits)
qed

lemma appends_paired_catch_all:
  assumes "appends_paired st r"
    and "prev_tool_call_arr (snd r) = prev_tool_call_arr st
           \<longrightarrow> current_tool_id (snd r) = current_tool_id st"
  shows "appends_paired st (catch_all r)"
        "\<not> isl (fst (catch_all r))"
proof -
  obtain x st' where r: "r = (x, st')" by (cases r)
  show "appends_paired st (catch_all r)"
    using assms unfolding r by (cases x) (auto simp: catch_all_def appends_paired_def)
  show "\<not> isl (fst (catch_all r))"
    unfolding r by (cases x) (auto simp: catch_all_def)
qed

lemma appends_paired_think_json: "appends_paired st (streaming_extract_think_json st current_text)"
  unfolding streaming_extract_think_json_def
  by (intro appends_paired_catch_all(1)) (auto simp: json_try_paired split: option.splits)

lemma appends_paired_direct_json: "appends_paired st (streaming_extract_direct_json st current_text)"
  unfolding streaming_extract_direct_json_def
  using json_try_paired by (intro appends_paired_catch_all(1)) blast+

lemma appends_paired_streaming: "appends_paired st (extract_tool_calls_streaming st p c d)"
  by (auto simp: extract_tool_calls_streaming_def Let_def streaming_extract_roo_xml_def
      appends_paired_think_json appends_paired_direct_json appends_paired_roo_loop
      appends_paired_hermes appends_paired_tools
      split: option.splits)

lemma bookkeeping_kept_by_returning_calls:
  assumes "bookkeeping_ok st"
    and "extract_tool_calls_streaming st p c d = (Inr r, st')"
  shows "bookkeeping_ok st'"
  using assms appends_paired_streaming [of st p c d]
  by (auto simp: appends_paired_def bookkeeping_ok_def)

lemma bookkeeping_ok_init: "bookkeeping_ok (init_state start_array end_array)"
  by (simp add: bookkeeping_ok_def init_state_def)

end
